theory Spec2Isabelle
  imports Main
begin

section \<open>JavaScript strings and regular expressions\<close>

text \<open>
  Strings are lists of 8-bit characters; a character is compared through its code.
  The accented letters of the Spanish messages are written by their Latin-1 code.
\<close>

definition code :: "char \<Rightarrow> nat" where
  "code c = of_char c"

definition in_range :: "char \<Rightarrow> char \<Rightarrow> char \<Rightarrow> bool" where
  "in_range lo hi c = (code lo \<le> code c \<and> code c \<le> code hi)"

definition is_digit :: "char \<Rightarrow> bool" where
  "is_digit c = in_range (CHR ''0'') (CHR ''9'') c"

text \<open>
  White space as \<^verbatim>\<open>\s\<close>, \<^verbatim>\<open>String.prototype.trim\<close> and \<^verbatim>\<open>parseInt\<close> see it, among the
  8-bit characters: TAB, LF, VT, FF, CR, SPACE and NBSP.
\<close>

definition is_space :: "char \<Rightarrow> bool" where
  "is_space c = (code c \<in> {9, 10, 11, 12, 13, 32, 160})"

text \<open>\<^verbatim>\<open>s.replace(/\s/g, '')\<close>\<close>

definition strip_spaces :: "string \<Rightarrow> string" where
  "strip_spaces s = filter (\<lambda>c. \<not> is_space c) s"

text \<open>\<^verbatim>\<open>s.trim()\<close>\<close>

definition trim :: "string \<Rightarrow> string" where
  "trim s = rev (dropWhile is_space (rev (dropWhile is_space s)))"

text \<open>Simple case mapping of the letters of ASCII and Latin-1.\<close>

definition to_lower :: "char \<Rightarrow> char" where
  "to_lower c =
     (if in_range (CHR ''A'') (CHR ''Z'') c
         \<or> (in_range (CHR 0xC0) (CHR 0xDE) c \<and> code c \<noteq> 0xD7)
      then char_of (code c + 32) else c)"

definition to_upper :: "char \<Rightarrow> char" where
  "to_upper c =
     (if in_range (CHR ''a'') (CHR ''z'') c
         \<or> (in_range (CHR 0xE0) (CHR 0xFE) c \<and> code c \<noteq> 0xF7)
      then char_of (code c - 32) else c)"

text \<open>\<^verbatim>\<open>s.toLowerCase()\<close>\<close>

definition toLowerCase :: "string \<Rightarrow> string" where
  "toLowerCase s = map to_lower s"

text \<open>
  The regular expressions of the source use literal characters, character classes,
  concatenation, alternation and the counted repetition \<^verbatim>\<open>{n}\<close> only. A class is a list of
  ranges. The matcher returns every remainder of the input that a match of the
  expression at the start of the input can leave, in backtracking order; the first
  argument is the \<^verbatim>\<open>i\<close> flag.
\<close>

datatype rx =
    Cls "(char \<times> char) list"
  | Seq rx rx
  | Alt rx rx
  | Times nat rx

definition cls_mem :: "bool \<Rightarrow> (char \<times> char) list \<Rightarrow> char \<Rightarrow> bool" where
  "cls_mem ci rs c =
     (list_ex (\<lambda>(lo, hi). in_range lo hi c) rs
      \<or> (ci \<and> list_ex (\<lambda>(lo, hi). in_range lo hi (to_upper c) \<or> in_range lo hi (to_lower c)) rs))"

primrec rx_match :: "bool \<Rightarrow> rx \<Rightarrow> string \<Rightarrow> string list" where
  "rx_match ci (Cls rs) = (\<lambda>s. case s of [] \<Rightarrow> [] | c # t \<Rightarrow> if cls_mem ci rs c then [t] else [])"
| "rx_match ci (Seq a b) = (\<lambda>s. concat (map (rx_match ci b) (rx_match ci a s)))"
| "rx_match ci (Alt a b) = (\<lambda>s. rx_match ci a s @ rx_match ci b s)"
| "rx_match ci (Times n a) = (\<lambda>s. ((\<lambda>ss. concat (map (rx_match ci a) ss)) ^^ n) [s])"

text \<open>\<^verbatim>\<open>/^r$/.test(s)\<close> and \<^verbatim>\<open>/^r/.test(s)\<close>\<close>

definition test_whole :: "bool \<Rightarrow> rx \<Rightarrow> string \<Rightarrow> bool" where
  "test_whole ci r s = ([] \<in> set (rx_match ci r s))"

definition test_prefix :: "bool \<Rightarrow> rx \<Rightarrow> string \<Rightarrow> bool" where
  "test_prefix ci r s = (rx_match ci r s \<noteq> [])"

text \<open>A literal character, and the classes \<^verbatim>\<open>\d\<close> and \<^verbatim>\<open>[a-b]\<close>.\<close>

definition Lit :: "char \<Rightarrow> rx" where
  "Lit c = Cls [(c, c)]"

definition Digit :: rx where
  "Digit = Cls [(CHR ''0'', CHR ''9'')]"

definition Rng :: "char \<Rightarrow> char \<Rightarrow> rx" where
  "Rng lo hi = Cls [(lo, hi)]"

text \<open>A concatenation of several expressions; the empty one matches the empty string.\<close>

fun Seqs :: "rx list \<Rightarrow> rx" where
  "Seqs [] = Times 0 (Cls [])"
| "Seqs [r] = r"
| "Seqs (r # rs) = Seq r (Seqs rs)"

text \<open>\<^verbatim>\<open>s.slice(-4)\<close>: the last four characters, the whole string when it is shorter.\<close>

definition slice_last4 :: "string \<Rightarrow> string" where
  "slice_last4 s = drop (length s - 4) s"

text \<open>\<^verbatim>\<open>s.split(d)\<close> for a separator of one character: never an empty array.\<close>

fun split :: "char \<Rightarrow> string \<Rightarrow> string list" where
  "split d [] = [[]]"
| "split d (c # cs) =
     (if c = d then [] # split d cs
      else (case split d cs of [] \<Rightarrow> [[c]] | p # ps \<Rightarrow> (c # p) # ps))"

text \<open>
  \<^verbatim>\<open>parseInt(s, 10)\<close>: leading white space is skipped, one sign is read, then the longest
  run of decimal digits; without a digit the result is NaN, here \<open>None\<close>. The value is
  kept as an unbounded integer: the rounding of a long run of digits to a double does
  not change how it compares with a month or a year.
\<close>

definition digits_value :: "string \<Rightarrow> nat" where
  "digits_value ds = foldl (\<lambda>acc c. 10 * acc + (code c - 48)) 0 ds"

definition parseInt :: "string \<Rightarrow> int option" where
  "parseInt s =
     (let t = dropWhile is_space s;
          neg = (case t of [] \<Rightarrow> False | c # _ \<Rightarrow> c = CHR ''-'');
          u = (case t of [] \<Rightarrow> [] | c # r \<Rightarrow> if c = CHR ''+'' \<or> c = CHR ''-'' then r else t);
          ds = takeWhile is_digit u
      in if ds = [] then None
         else Some (if neg then - int (digits_value ds) else int (digits_value ds)))"

section \<open>Filter validator (search-validation.ts)\<close>

record CustomerSearchFilters =
  primaryPhone :: string
  secondaryPhone :: string
  clientNumber :: string
  firstName :: string
  lastName :: string
  secondLastName :: string
  dateOfBirth :: string
  rfc :: string
  stateId :: string
  municipalityId :: string
  neighborhoodId :: string
  postalCode :: string
  ife :: string
  passport :: string

record ValidationError =
  field :: string
  message :: string

record ValidationResult =
  isValid :: bool
  errors :: "ValidationError list"
  generalError :: "string option"

text \<open>A string is truthy when it is not empty.\<close>

definition truthy :: "string \<Rightarrow> bool" where
  "truthy s = (s \<noteq> [])"

definition validatePhoneNumber :: "string \<Rightarrow> bool" where
  "validatePhoneNumber phone =
     (if \<not> truthy phone then True else test_whole False (Times 10 Digit) phone)"

definition validateRFC :: "string \<Rightarrow> bool" where
  "validateRFC r =
     (if \<not> truthy r then True
      else test_whole True (Times 13 (Cls [(CHR ''A'', CHR ''Z''), (CHR ''0'', CHR ''9'')])) r)"

definition validatePostalCode :: "string \<Rightarrow> bool" where
  "validatePostalCode p =
     (if \<not> truthy p then True else test_whole False (Times 5 Digit) p)"

definition countFilledFilters :: "CustomerSearchFilters \<Rightarrow> nat" where
  "countFilledFilters f =
     (if truthy (primaryPhone f) then 1 else 0)
   + (if truthy (secondaryPhone f) then 1 else 0)
   + (if truthy (clientNumber f) then 1 else 0)
   + (if truthy (firstName f) then 1 else 0)
   + (if truthy (lastName f) then 1 else 0)
   + (if truthy (secondLastName f) then 1 else 0)
   + (if truthy (dateOfBirth f) then 1 else 0)
   + (if truthy (rfc f) then 1 else 0)
   + (if truthy (stateId f) \<or> truthy (municipalityId f)
         \<or> truthy (neighborhoodId f) \<or> truthy (postalCode f) then 1 else 0)
   + (if truthy (ife f) then 1 else 0)
   + (if truthy (passport f) then 1 else 0)"

definition msg_minimum_filters :: string where
  "msg_minimum_filters =
     ''Campos necesarios faltantes. Por favor, llena al menos dos campos para realizar la b''
     @ [CHR 0xFA] @ ''squeda.''"

definition msg_primaryPhone :: string where
  "msg_primaryPhone =
     ''El tel'' @ [CHR 0xE9] @ ''fono de casa debe tener 10 d'' @ [CHR 0xED] @ ''gitos num''
     @ [CHR 0xE9] @ ''ricos''"

definition msg_secondaryPhone :: string where
  "msg_secondaryPhone =
     ''El n'' @ [CHR 0xFA] @ ''mero celular debe tener 10 d'' @ [CHR 0xED] @ ''gitos num''
     @ [CHR 0xE9] @ ''ricos''"

definition msg_rfc :: string where
  "msg_rfc = ''El RFC debe tener 13 caracteres alfanum'' @ [CHR 0xE9] @ ''ricos''"

definition msg_postalCode :: string where
  "msg_postalCode =
     ''El c'' @ [CHR 0xF3] @ ''digo postal debe tener 5 d'' @ [CHR 0xED] @ ''gitos num''
     @ [CHR 0xE9] @ ''ricos''"

text \<open>
  The \<^verbatim>\<open>errors\<close> array is threaded through the four format rules; each rule pushes at
  most one entry at the end.
\<close>

definition push_if :: "bool \<Rightarrow> ValidationError \<Rightarrow> ValidationError list \<Rightarrow> ValidationError list" where
  "push_if b e es = (if b then es @ [e] else es)"

definition validateSearchFilters :: "CustomerSearchFilters \<Rightarrow> ValidationResult" where
  "validateSearchFilters f =
     (let errors0 = [];
          filledFiltersCount = countFilledFilters f
      in if filledFiltersCount < 2
         then \<lparr>isValid = False, errors = [], generalError = Some msg_minimum_filters\<rparr>
         else
           let errors1 = push_if (truthy (primaryPhone f) \<and> \<not> validatePhoneNumber (primaryPhone f))
                           \<lparr>field = ''primaryPhone'', message = msg_primaryPhone\<rparr> errors0;
               errors2 = push_if (truthy (secondaryPhone f) \<and> \<not> validatePhoneNumber (secondaryPhone f))
                           \<lparr>field = ''secondaryPhone'', message = msg_secondaryPhone\<rparr> errors1;
               errors3 = push_if (truthy (rfc f) \<and> \<not> validateRFC (rfc f))
                           \<lparr>field = ''rfc'', message = msg_rfc\<rparr> errors2;
               errors4 = push_if (truthy (postalCode f) \<and> \<not> validatePostalCode (postalCode f))
                           \<lparr>field = ''postalCode'', message = msg_postalCode\<rparr> errors3
           in \<lparr>isValid = (length errors4 = 0), errors = errors4, generalError = None\<rparr>)"

section \<open>Card security utilities (card-security.utils.ts)\<close>

definition maskCardNumber :: "string \<Rightarrow> string" where
  "maskCardNumber cardNumber =
     (if \<not> truthy cardNumber \<or> length cardNumber < 4 then ''****''
      else ''**** **** **** '' @ slice_last4 cardNumber)"

definition getLastFourDigits :: "string \<Rightarrow> string" where
  "getLastFourDigits cardNumber =
     (if \<not> truthy cardNumber \<or> length cardNumber < 4 then []
      else slice_last4 cardNumber)"

definition isValidCardLength :: "string \<Rightarrow> bool" where
  "isValidCardLength cardNumber =
     (if \<not> truthy cardNumber then False
      else length (strip_spaces cardNumber) \<in> set [13, 14, 15, 16, 19])"

text \<open>
  What the code reads of a \<^verbatim>\<open>Date\<close>: \<^verbatim>\<open>getFullYear()\<close> and \<^verbatim>\<open>getMonth()\<close> (0 to 11).
  \<^verbatim>\<open>new Date()\<close>, the clock, is the first argument of \<open>isCardExpired\<close>.
\<close>

record Date =
  getFullYear :: int
  getMonth :: int

definition isCardExpired :: "Date \<Rightarrow> string \<Rightarrow> bool" where
  "isCardExpired now expirationDate =
     (if \<not> truthy expirationDate \<or> CHR ''/'' \<notin> set expirationDate then True
      else
        let parts = split (CHR ''/'') expirationDate;
            month = (case parts of [] \<Rightarrow> ''undefined'' | m # _ \<Rightarrow> m);
            year = (case parts of _ # y # _ \<Rightarrow> y | _ \<Rightarrow> ''undefined'')
        in case (parseInt month, parseInt (''20'' @ year)) of
             (Some expMonth, Some expYear) \<Rightarrow>
               (let currentMonth = getMonth now + 1;
                    currentYear = getFullYear now
                in if expYear < currentYear then True
                   else if expYear = currentYear \<and> expMonth < currentMonth then True
                   else False)
           | _ \<Rightarrow> True)"

definition isCardUsable :: "string \<Rightarrow> bool" where
  "isCardUsable status = (toLowerCase status = ''active'')"

definition rx_visa :: rx where
  "rx_visa = Lit (CHR ''4'')"

definition rx_mastercard_5 :: rx where
  "rx_mastercard_5 = Seq (Lit (CHR ''5'')) (Rng (CHR ''1'') (CHR ''5''))"

definition rx_mastercard_2 :: rx where
  "rx_mastercard_2 =
     Seq (Lit (CHR ''2''))
       (Alt (Seqs [Lit (CHR ''2''), Rng (CHR ''2'') (CHR ''9''), Rng (CHR ''0'') (CHR ''9'')])
       (Alt (Seqs [Rng (CHR ''3'') (CHR ''6''), Times 2 (Rng (CHR ''0'') (CHR ''9''))])
       (Alt (Seqs [Lit (CHR ''7''), Rng (CHR ''0'') (CHR ''1''), Rng (CHR ''0'') (CHR ''9'')])
            (Seqs [Lit (CHR ''7''), Lit (CHR ''2''), Lit (CHR ''0'')]))))"

definition rx_amex :: rx where
  "rx_amex = Seq (Lit (CHR ''3'')) (Cls [(CHR ''4'', CHR ''4''), (CHR ''7'', CHR ''7'')])"

definition rx_discover :: rx where
  "rx_discover =
     Alt (Seqs [Lit (CHR ''6''), Lit (CHR ''0''), Lit (CHR ''1''), Lit (CHR ''1'')])
    (Alt (Seqs [Lit (CHR ''6''), Lit (CHR ''4''), Rng (CHR ''4'') (CHR ''9'')])
    (Alt (Seqs [Lit (CHR ''6''), Lit (CHR ''5'')])
         (Seqs [Lit (CHR ''6''), Lit (CHR ''2''), Lit (CHR ''2''),
            Alt (Seqs [Lit (CHR ''1''), Rng (CHR ''2'') (CHR ''9''), Rng (CHR ''6'') (CHR ''9'')])
           (Alt (Seqs [Rng (CHR ''2'') (CHR ''8''), Times 2 (Rng (CHR ''0'') (CHR ''9''))])
           (Alt (Seqs [Lit (CHR ''9''), Rng (CHR ''0'') (CHR ''1''), Rng (CHR ''0'') (CHR ''9'')])
                (Seqs [Lit (CHR ''9''), Lit (CHR ''2''), Rng (CHR ''0'') (CHR ''5'')])))])))"

definition rx_diners :: rx where
  "rx_diners =
     Seq (Lit (CHR ''3''))
       (Alt (Seq (Lit (CHR ''0'')) (Rng (CHR ''0'') (CHR ''5'')))
            (Cls [(CHR ''6'', CHR ''6''), (CHR ''8'', CHR ''8'')]))"

definition getCardBrand :: "string \<Rightarrow> string" where
  "getCardBrand cardNumber =
     (if \<not> truthy cardNumber then ''Unknown''
      else
        let cleaned = strip_spaces cardNumber
        in if test_prefix False rx_visa cleaned then ''Visa''
           else if test_prefix False rx_mastercard_5 cleaned
                   \<or> test_prefix False rx_mastercard_2 cleaned then ''MasterCard''
           else if test_prefix False rx_amex cleaned then ''American Express''
           else if test_prefix False rx_discover cleaned then ''Discover''
           else if test_prefix False rx_diners cleaned then ''Diners Club''
           else ''Unknown'')"

text \<open>The argument and the result of \<open>validateCardForTransaction\<close>.\<close>

record TransactionCard =
  tx_cardNumber :: string
  tx_expirationDate :: string
  tx_status :: string

record TransactionCheck =
  tx_isValid :: bool
  tx_error :: "string option"

definition msg_invalid_number :: string where
  "msg_invalid_number = ''N'' @ [CHR 0xFA] @ ''mero de tarjeta inv'' @ [CHR 0xE1] @ ''lido''"

definition msg_expired :: string where
  "msg_expired = ''La tarjeta ha expirado''"

definition msg_not_active :: "string \<Rightarrow> string" where
  "msg_not_active status =
     ''La tarjeta est'' @ [CHR 0xE1] @ '' '' @ status
     @ ''. Solo tarjetas activas pueden ser utilizadas.''"

definition validateCardForTransaction :: "Date \<Rightarrow> TransactionCard \<Rightarrow> TransactionCheck" where
  "validateCardForTransaction now c =
     (if \<not> isValidCardLength (tx_cardNumber c)
        then \<lparr>tx_isValid = False, tx_error = Some msg_invalid_number\<rparr>
      else if isCardExpired now (tx_expirationDate c)
        then \<lparr>tx_isValid = False, tx_error = Some msg_expired\<rparr>
      else if \<not> isCardUsable (tx_status c)
        then \<lparr>tx_isValid = False, tx_error = Some (msg_not_active (tx_status c))\<rparr>
      else \<lparr>tx_isValid = True, tx_error = None\<rparr>)"

section \<open>The registry (schema.ts) and its queries\<close>

text \<open>
  The rows of the tables, with the columns that the actions read. A nullable column is an
  \<open>option\<close>. A \<^verbatim>\<open>date\<close> column is kept as the \<^verbatim>\<open>Date\<close> that \<^verbatim>\<open>new Date(...)\<close> makes of it.
\<close>

record customer_row =
  c_id :: string
  c_firstName :: string
  c_lastName :: string
  c_middleName :: "string option"
  c_status :: string

record phone_row =
  ph_customerId :: string
  ph_number :: string

record government_id_row =
  g_customerId :: string
  g_type :: string
  g_number :: string

record address_row =
  a_customerId :: string
  a_street :: string
  a_postalCode :: "string option"
  a_stateId :: string
  a_municipalityId :: string
  a_neighborhoodId :: "string option"
  a_isPrimary :: bool

record place_row =
  pl_id :: string
  pl_name :: string

record card_row =
  k_id :: string
  k_customerId :: string
  k_number :: string
  k_type :: string
  k_status :: string
  k_expirationDate :: "Date option"

text \<open>
  The database handle \<^verbatim>\<open>db\<close>: each table is its list of rows, in the order in which a
  query without \<^verbatim>\<open>ORDER BY\<close> returns them, or \<open>None\<close> when reading it fails.
\<close>

record db =
  customers :: "customer_row list option"
  phones :: "phone_row list option"
  governmentIds :: "government_id_row list option"
  addresses :: "address_row list option"
  states :: "place_row list option"
  municipalities :: "place_row list option"
  neighborhoods :: "place_row list option"
  cards :: "card_row list option"

text \<open>What is thrown inside a \<^verbatim>\<open>try\<close> block: an \<^verbatim>\<open>Error\<close> of the action, or a rejected query.\<close>

datatype thrown = Thrown string | QueryFailed

text \<open>What an action throws to its caller, by the message of the \<^verbatim>\<open>Error\<close>.\<close>

datatype action_error =
    FailedToFetchCustomerCards
  | FailedToFetchCard
  | FailedToSearchCustomers

definition and_then :: "'e + 'a \<Rightarrow> ('a \<Rightarrow> 'e + 'b) \<Rightarrow> 'e + 'b" where
  "and_then r k = (case r of Inl e \<Rightarrow> Inl e | Inr x \<Rightarrow> k x)"

text \<open>\<^verbatim>\<open>db.select(...).from(t).where(p)\<close>\<close>

definition query :: "'a list option \<Rightarrow> ('a \<Rightarrow> bool) \<Rightarrow> thrown + 'a list" where
  "query t p = (case t of None \<Rightarrow> Inl QueryFailed | Some rows \<Rightarrow> Inr (filter p rows))"

text \<open>\<^verbatim>\<open>.limit(1)\<close>\<close>

definition limit1 :: "'a list \<Rightarrow> 'a list" where
  "limit1 rows = take 1 rows"

text \<open>\<^verbatim>\<open>String(n)\<close> for an integer, \<^verbatim>\<open>s.padStart(2, '0')\<close> and \<^verbatim>\<open>s.slice(-2)\<close>.\<close>

fun string_of_nat :: "nat \<Rightarrow> string" where
  "string_of_nat n =
     (if n < 10 then [char_of (48 + n)]
      else string_of_nat (n div 10) @ [char_of (48 + n mod 10)])"

definition String :: "int \<Rightarrow> string" where
  "String i = (if i < 0 then CHR ''-'' # string_of_nat (nat (- i)) else string_of_nat (nat i))"

definition padStart2 :: "string \<Rightarrow> string" where
  "padStart2 s = replicate (2 - length s) (CHR ''0'') @ s"

definition slice_last2 :: "string \<Rightarrow> string" where
  "slice_last2 s = drop (length s - 2) s"

text \<open>\<^verbatim>\<open>x || ''\<close> for a nullable string.\<close>

definition or_empty :: "string option \<Rightarrow> string" where
  "or_empty x = (case x of None \<Rightarrow> [] | Some s \<Rightarrow> s)"

section \<open>Card registry actions (cards.ts)\<close>

record CustomerCardData =
  card_id :: string
  cardNumber :: string
  cardType :: string
  expirationDate :: string
  cardholderName :: string
  status :: string
  issuer :: string
  lastFourDigits :: string

definition formattedExpDate :: "Date option \<Rightarrow> string" where
  "formattedExpDate expDate =
     (case expDate of
        None \<Rightarrow> ''N/A''
      | Some d \<Rightarrow> padStart2 (String (getMonth d + 1)) @ ''/'' @ slice_last2 (String (getFullYear d)))"

definition buildCardholderName :: "string \<Rightarrow> string option \<Rightarrow> string \<Rightarrow> string" where
  "buildCardholderName firstN middleN lastN =
     trim (firstN @ '' '' @ or_empty middleN @ '' '' @ lastN)"

definition mappedStatus :: "string \<Rightarrow> string" where
  "mappedStatus st =
     (if st = ''active'' then ''active''
      else if st = ''expired'' then ''blocked''
      else ''inactive'')"

text \<open>The object built for one card, in \<open>getCustomerCards\<close> and in \<open>getCardById\<close> alike.\<close>

definition card_data :: "string \<Rightarrow> string option \<Rightarrow> string \<Rightarrow> card_row \<Rightarrow> CustomerCardData" where
  "card_data firstN middleN lastN k =
     \<lparr>card_id = k_id k,
      cardNumber = k_number k,
      cardType = k_type k,
      expirationDate = formattedExpDate (k_expirationDate k),
      cardholderName = buildCardholderName firstN middleN lastN,
      status = mappedStatus (k_status k),
      issuer = ''Banco Nacional'',
      lastFourDigits = getLastFourDigits (k_number k)\<rparr>"

definition getCustomerCards_try :: "db \<Rightarrow> string \<Rightarrow> thrown + CustomerCardData list" where
  "getCustomerCards_try d customerId =
     (if \<not> truthy customerId \<or> trim customerId = []
      then Inl (Thrown ''Customer ID is required'')
      else
        and_then (query (customers d) (\<lambda>c. c_id c = customerId)) (\<lambda>found.
          case limit1 found of
            [] \<Rightarrow> Inr []
          | customer # _ \<Rightarrow>
              and_then (query (cards d) (\<lambda>k. k_customerId k = customerId)) (\<lambda>customerCards.
                Inr (map (card_data (c_firstName customer) (c_middleName customer)
                            (c_lastName customer)) customerCards))))"

definition getCustomerCards :: "db \<Rightarrow> string \<Rightarrow> action_error + CustomerCardData list" where
  "getCustomerCards d customerId =
     (case getCustomerCards_try d customerId of
        Inl _ \<Rightarrow> Inl FailedToFetchCustomerCards
      | Inr cardData \<Rightarrow> Inr cardData)"




section \<open>Search orchestrator (customer-search.ts)\<close>

text \<open>
  \<^verbatim>\<open>like(column, pattern)\<close> is the \<^verbatim>\<open>LIKE\<close> of PostgreSQL: \<^verbatim>\<open>%\<close> stands for any run of
  characters, \<^verbatim>\<open>_\<close> for one character, a backslash takes the next character literally,
  and letters match by case. The first argument is the pattern. A pattern that ends in
  a lone backslash matches nothing here; the patterns of the search end in \<^verbatim>\<open>%\<close>.
\<close>

fun like_match :: "string \<Rightarrow> string \<Rightarrow> bool" where
  "like_match [] s = (s = [])"
| "like_match (p # ps) [] = (p = CHR ''%'' \<and> like_match ps [])"
| "like_match (p # ps) (c # t) =
     (if p = CHR ''%'' then like_match ps (c # t) \<or> like_match (p # ps) t
      else if p = CHR ''_'' then like_match ps t
      else if p = CHR 0x5C then
        (case ps of [] \<Rightarrow> False | q # qs \<Rightarrow> c = q \<and> like_match qs t)
      else c = p \<and> like_match ps t)"

text \<open>\<^verbatim>\<open>like(column, `%${v}%`)\<close> on a column that may be null: null is never a match.\<close>

definition like_contains :: "string option \<Rightarrow> string \<Rightarrow> bool" where
  "like_contains col v =
     (case col of None \<Rightarrow> False | Some s \<Rightarrow> like_match (''%'' @ v @ ''%'') s)"

text \<open>\<^verbatim>\<open>and(...conditions)\<close> and \<^verbatim>\<open>or(...conditions)\<close> on one row.\<close>

definition sql_and :: "('a \<Rightarrow> bool) list \<Rightarrow> 'a \<Rightarrow> bool" where
  "sql_and conditions row = list_all (\<lambda>p. p row) conditions"

definition sql_or :: "('a \<Rightarrow> bool) list \<Rightarrow> 'a \<Rightarrow> bool" where
  "sql_or conditions row = list_ex (\<lambda>p. p row) conditions"

text \<open>\<^verbatim>\<open>if (b) conditions.push(p)\<close>\<close>

definition push_when :: "bool \<Rightarrow> 'a \<Rightarrow> 'a list \<Rightarrow> 'a list" where
  "push_when b p ps = (if b then ps @ [p] else ps)"

record CustomerSearchResult =
  res_id :: string
  res_customerNumber :: string
  res_firstName :: string
  res_lastName :: string
  res_secondLastName :: "string option"
  res_rfc :: "string option"
  res_status :: string
  res_primaryPhone :: string
  res_primaryAddress :: string

record CustomerSearchResponse =
  data :: "CustomerSearchResult list"
  totalCount :: nat

text \<open>The base query on the customer names.\<close>

definition name_conditions :: "CustomerSearchFilters \<Rightarrow> (customer_row \<Rightarrow> bool) list" where
  "name_conditions f =
     push_when (truthy (secondLastName f)) (\<lambda>c. like_contains (c_middleName c) (secondLastName f))
    (push_when (truthy (lastName f)) (\<lambda>c. like_contains (Some (c_lastName c)) (lastName f))
    (push_when (truthy (firstName f)) (\<lambda>c. like_contains (Some (c_firstName c)) (firstName f))
       []))"

definition base_query :: "db \<Rightarrow> CustomerSearchFilters \<Rightarrow> thrown + customer_row list" where
  "base_query d f =
     (let conditions = name_conditions f
      in query (customers d)
           (sql_and (if length conditions > 0 then conditions else [\<lambda>_. True])))"

text \<open>The three narrowing passes; each keeps the rows whose id is among the ids fetched.\<close>

definition phone_pass ::
  "db \<Rightarrow> CustomerSearchFilters \<Rightarrow> customer_row list \<Rightarrow> thrown + customer_row list" where
  "phone_pass d f results =
     (if truthy (primaryPhone f) \<or> truthy (secondaryPhone f) then
        let phoneConditions =
              push_when (truthy (secondaryPhone f)) (\<lambda>p. ph_number p = secondaryPhone f)
             (push_when (truthy (primaryPhone f)) (\<lambda>p. ph_number p = primaryPhone f) [])
        in and_then (query (phones d) (sql_or phoneConditions)) (\<lambda>customersWithPhones.
             let customerIdsWithPhones = map ph_customerId customersWithPhones
             in Inr (filter (\<lambda>r. c_id r \<in> set customerIdsWithPhones) results))
      else Inr results)"

definition government_id_pass ::
  "db \<Rightarrow> CustomerSearchFilters \<Rightarrow> customer_row list \<Rightarrow> thrown + customer_row list" where
  "government_id_pass d f results =
     (if truthy (rfc f) \<or> truthy (ife f) \<or> truthy (passport f) then
        let govIdConditions =
              push_when (truthy (passport f))
                (\<lambda>g. sql_and [\<lambda>g. g_type g = ''Passport'', \<lambda>g. g_number g = passport f] g)
             (push_when (truthy (ife f))
                (\<lambda>g. sql_and [\<lambda>g. g_type g = ''IFE'', \<lambda>g. g_number g = ife f] g)
             (push_when (truthy (rfc f))
                (\<lambda>g. sql_and [\<lambda>g. g_type g = ''RFC'', \<lambda>g. g_number g = rfc f] g) []))
        in and_then (query (governmentIds d) (sql_or govIdConditions)) (\<lambda>customersWithGovIds.
             let customerIdsWithGovIds = map g_customerId customersWithGovIds
             in Inr (filter (\<lambda>r. c_id r \<in> set customerIdsWithGovIds) results))
      else Inr results)"

definition address_pass ::
  "db \<Rightarrow> CustomerSearchFilters \<Rightarrow> customer_row list \<Rightarrow> thrown + customer_row list" where
  "address_pass d f results =
     (if truthy (stateId f) \<or> truthy (municipalityId f)
         \<or> truthy (neighborhoodId f) \<or> truthy (postalCode f) then
        let addressConditions =
              push_when (truthy (postalCode f)) (\<lambda>a. a_postalCode a = Some (postalCode f))
             (push_when (truthy (neighborhoodId f)) (\<lambda>a. a_neighborhoodId a = Some (neighborhoodId f))
             (push_when (truthy (municipalityId f)) (\<lambda>a. a_municipalityId a = municipalityId f)
             (push_when (truthy (stateId f)) (\<lambda>a. a_stateId a = stateId f) [])))
        in and_then (query (addresses d) (sql_and addressConditions)) (\<lambda>customersWithAddresses.
             let customerIdsWithAddresses = map a_customerId customersWithAddresses
             in Inr (filter (\<lambda>r. c_id r \<in> set customerIdsWithAddresses) results))
      else Inr results)"

text \<open>
  The enrichment of one candidate. The address query left-joins the three tables of
  places: a missing place gives a null name.
\<close>

record joined_address =
  j_street :: string
  j_postalCode :: "string option"
  j_stateName :: "string option"
  j_municipalityName :: "string option"
  j_neighborhoodName :: "string option"

definition left_join_names :: "place_row list \<Rightarrow> string option \<Rightarrow> string option list" where
  "left_join_names places key =
     (case filter (\<lambda>p. Some (pl_id p) = key) places of
        [] \<Rightarrow> [None]
      | ms \<Rightarrow> map (\<lambda>p. Some (pl_name p)) ms)"

definition query_primary_addresses :: "db \<Rightarrow> string \<Rightarrow> thrown + joined_address list" where
  "query_primary_addresses d customerId =
     (case (addresses d, states d, municipalities d, neighborhoods d) of
        (Some as, Some ss, Some ms, Some ns) \<Rightarrow>
          Inr (concat (map (\<lambda>a.
                 concat (map (\<lambda>s.
                   concat (map (\<lambda>m.
                     map (\<lambda>n. \<lparr>j_street = a_street a, j_postalCode = a_postalCode a,
                                j_stateName = s, j_municipalityName = m,
                                j_neighborhoodName = n\<rparr>)
                       (left_join_names ns (a_neighborhoodId a)))
                     (left_join_names ms (Some (a_municipalityId a)))))
                   (left_join_names ss (Some (a_stateId a)))))
                 (filter (\<lambda>a. a_customerId a = customerId \<and> a_isPrimary a) as)))
      | _ \<Rightarrow> Inl QueryFailed)"

text \<open>A nullable string inside a template literal.\<close>

definition in_template :: "string option \<Rightarrow> string" where
  "in_template x = (case x of None \<Rightarrow> ''null'' | Some s \<Rightarrow> s)"

definition format_primary_address :: "joined_address list \<Rightarrow> string" where
  "format_primary_address primaryAddresses =
     (case primaryAddresses of
        [] \<Rightarrow> []
      | a # _ \<Rightarrow>
          trim (j_street a @ '', '' @ or_empty (j_neighborhoodName a) @ '', ''
                @ in_template (j_municipalityName a) @ '', ''
                @ in_template (j_stateName a) @ '' '' @ in_template (j_postalCode a)))"

definition enrich :: "db \<Rightarrow> customer_row \<Rightarrow> thrown + CustomerSearchResult" where
  "enrich d customer =
     and_then (query (phones d) (\<lambda>p. ph_customerId p = c_id customer)) (\<lambda>ps.
     and_then (query (governmentIds d)
                 (\<lambda>g. g_customerId g = c_id customer \<and> g_type g = ''RFC'')) (\<lambda>gs.
     and_then (query_primary_addresses d (c_id customer)) (\<lambda>as.
       let primaryPhones = limit1 ps;
           rfcRecords = limit1 gs;
           primaryAddresses = limit1 as;
           primaryPhone = (case primaryPhones of [] \<Rightarrow> [] | p # _ \<Rightarrow> ph_number p);
           rfcNumber = (case rfcRecords of [] \<Rightarrow> None
                        | g # _ \<Rightarrow> if truthy (g_number g) then Some (g_number g) else None)
       in Inr \<lparr>res_id = c_id customer,
               res_customerNumber = take 10 (c_id customer),
               res_firstName = c_firstName customer,
               res_lastName = c_lastName customer,
               res_secondLastName = c_middleName customer,
               res_rfc = rfcNumber,
               res_status = c_status customer,
               res_primaryPhone = primaryPhone,
               res_primaryAddress = format_primary_address primaryAddresses\<rparr>)))"

text \<open>\<^verbatim>\<open>await Promise.all(results.map(...))\<close>: all results, or the rejection of one of them.\<close>

fun all_results :: "('e + 'a) list \<Rightarrow> 'e + 'a list" where
  "all_results [] = Inr []"
| "all_results (r # rs) =
     (case r of
        Inl e \<Rightarrow> Inl e
      | Inr x \<Rightarrow> (case all_results rs of Inl e \<Rightarrow> Inl e | Inr xs \<Rightarrow> Inr (x # xs)))"

definition searchCustomers_try :: "db \<Rightarrow> CustomerSearchFilters \<Rightarrow> thrown + CustomerSearchResponse" where
  "searchCustomers_try d f =
     and_then (base_query d f) (\<lambda>results0.
     and_then (phone_pass d f results0) (\<lambda>results1.
     and_then (government_id_pass d f results1) (\<lambda>results2.
     and_then (address_pass d f results2) (\<lambda>results3.
     and_then (all_results (map (enrich d) results3)) (\<lambda>enrichedResults.
       Inr \<lparr>data = enrichedResults, totalCount = length enrichedResults\<rparr>)))))"

definition searchCustomers :: "db \<Rightarrow> CustomerSearchFilters \<Rightarrow> action_error + CustomerSearchResponse" where
  "searchCustomers d f =
     (case searchCustomers_try d f of
        Inl _ \<Rightarrow> Inl FailedToSearchCustomers
      | Inr r \<Rightarrow> Inr r)"

section \<open>The properties, in the words of the specification\<close>

text \<open>The rows of a table that can be read; no rows otherwise.\<close>

definition rows :: "'a list option \<Rightarrow> 'a list" where
  "rows t = (case t of None \<Rightarrow> [] | Some xs \<Rightarrow> xs)"


text \<open>
  A supplied field is malformed when it is not exactly 10 digits (a phone), not exactly
  13 letters or digits (the RFC), not exactly 5 digits (the postal code).
\<close>

definition is_alnum :: "char \<Rightarrow> bool" where
  "is_alnum c =
     (in_range (CHR ''A'') (CHR ''Z'') c \<or> in_range (CHR ''a'') (CHR ''z'') c \<or> is_digit c)"

definition malformed_phone :: "string \<Rightarrow> bool" where
  "malformed_phone s = (s \<noteq> [] \<and> \<not> (length s = 10 \<and> list_all is_digit s))"

definition malformed_rfc :: "string \<Rightarrow> bool" where
  "malformed_rfc s = (s \<noteq> [] \<and> \<not> (length s = 13 \<and> list_all is_alnum s))"

definition malformed_postalCode :: "string \<Rightarrow> bool" where
  "malformed_postalCode s = (s \<noteq> [] \<and> \<not> (length s = 5 \<and> list_all is_digit s))"

definition malformed_fields :: "CustomerSearchFilters \<Rightarrow> string list" where
  "malformed_fields f =
     (if malformed_phone (primaryPhone f) then [''primaryPhone''] else [])
   @ (if malformed_phone (secondaryPhone f) then [''secondaryPhone''] else [])
   @ (if malformed_rfc (rfc f) then [''rfc''] else [])
   @ (if malformed_postalCode (postalCode f) then [''postalCode''] else [])"






text \<open>What an action returned: the list on success, nothing if it raised.\<close>

definition returned :: "'e + 'a list \<Rightarrow> 'a list" where
  "returned r = (case r of Inl _ \<Rightarrow> [] | Inr xs \<Rightarrow> xs)"




section \<open>A small registry, a clock and filter sets for the examples\<close>

definition no_filters :: CustomerSearchFilters where
  "no_filters =
     \<lparr>primaryPhone = [], secondaryPhone = [], clientNumber = [], firstName = [],
      lastName = [], secondLastName = [], dateOfBirth = [], rfc = [], stateId = [],
      municipalityId = [], neighborhoodId = [], postalCode = [], ife = [], passport = []\<rparr>"

definition november_2026 :: Date where
  "november_2026 = \<lparr>getFullYear = 2026, getMonth = 10\<rparr>"

definition demo_db :: db where
  "demo_db =
     \<lparr>customers = Some
        [\<lparr>c_id = ''c1'', c_firstName = ''John'', c_lastName = ''Doe'',
          c_middleName = None, c_status = ''active''\<rparr>,
         \<lparr>c_id = ''c2'', c_firstName = ''Jane'', c_lastName = ''Smith'',
          c_middleName = Some ''A'', c_status = ''inactive''\<rparr>,
         \<lparr>c_id = ''c3'', c_firstName = ''Joan'', c_lastName = ''Doe'',
          c_middleName = Some ''B'', c_status = ''active''\<rparr>],
      phones = Some
        [\<lparr>ph_customerId = ''c2'', ph_number = ''5551234567''\<rparr>,
         \<lparr>ph_customerId = ''c3'', ph_number = ''5557654321''\<rparr>],
      governmentIds = Some
        [\<lparr>g_customerId = ''c2'', g_type = ''RFC'', g_number = ''ABCD123456XYZ''\<rparr>,
         \<lparr>g_customerId = ''c3'', g_type = ''IFE'', g_number = ''12345678901234567890''\<rparr>],
      addresses = Some
        [\<lparr>a_customerId = ''c2'', a_street = ''Calle 1'', a_postalCode = Some ''64000'',
          a_stateId = ''s1'', a_municipalityId = ''m1'', a_neighborhoodId = None,
          a_isPrimary = True\<rparr>,
         \<lparr>a_customerId = ''c3'', a_street = ''Calle 2'', a_postalCode = Some ''64010'',
          a_stateId = ''s1'', a_municipalityId = ''m1'', a_neighborhoodId = Some ''n1'',
          a_isPrimary = True\<rparr>],
      states = Some [\<lparr>pl_id = ''s1'', pl_name = ''Nuevo Leon''\<rparr>],
      municipalities = Some [\<lparr>pl_id = ''m1'', pl_name = ''Monterrey''\<rparr>],
      neighborhoods = Some [\<lparr>pl_id = ''n1'', pl_name = ''Centro''\<rparr>],
      cards = Some
        [\<lparr>k_id = ''k1'', k_customerId = ''c1'', k_number = ''4532123456789012'',
          k_type = ''debit'', k_status = ''expired'',
          k_expirationDate = Some \<lparr>getFullYear = 2025, getMonth = 11\<rparr>\<rparr>,
         \<lparr>k_id = ''k2'', k_customerId = ''c2'', k_number = ''5555123456789012'',
          k_type = ''credit'', k_status = ''active'', k_expirationDate = None\<rparr>]\<rparr>"




section \<open>Regular expressions and the format rules\<close>

lemma rx_match_Times_Cls:
  "rx_match ci (Times n (Cls rs)) s =
     (if n \<le> length s \<and> (\<forall>c \<in> set (take n s). cls_mem ci rs c) then [drop n s] else [])"
proof (induction n)
  case 0
  show ?case by simp
next
  case (Suc n)
  show ?case
  proof (cases "n < length s")
    case True
    then have tk: "take (Suc n) s = take n s @ [s ! n]"
      by (simp add: take_Suc_conv_app_nth)
    from True have dr: "drop n s = s ! n # drop (Suc n) s"
      by (simp add: Cons_nth_drop_Suc)
    show ?thesis using Suc True
      by (auto simp: tk dr)
  next
    case False
    then show ?thesis using Suc by (auto split: list.splits)
  qed
qed

lemma test_whole_Times_Cls:
  "test_whole ci (Times n (Cls rs)) s \<longleftrightarrow> length s = n \<and> (\<forall>c \<in> set s. cls_mem ci rs c)"
  unfolding test_whole_def rx_match_Times_Cls by auto

lemma cls_mem_digit: "cls_mem False [(CHR ''0'', CHR ''9'')] c = is_digit c"
  by (simp add: cls_mem_def is_digit_def)

lemma code_char_of: "code (char_of n) = n mod 256"
  by (simp add: code_def)

lemma code_less_256: "code c < 256"
  by (simp add: code_def)

text \<open>With the \<^verbatim>\<open>i\<close> flag the class \<^verbatim>\<open>[A-Z0-9]\<close> holds the ASCII letters and digits, no more.\<close>

lemma cls_mem_alnum: "cls_mem True [(CHR ''A'', CHR ''Z''), (CHR ''0'', CHR ''9'')] c = is_alnum c"
  using code_less_256[of c]
  by (simp add: cls_mem_def is_alnum_def is_digit_def to_upper_def to_lower_def
        in_range_def code_char_of) (simp add: code_def, arith)

lemma malformed_phone_iff: "malformed_phone s \<longleftrightarrow> truthy s \<and> \<not> validatePhoneNumber s"
  by (auto simp: malformed_phone_def validatePhoneNumber_def truthy_def Digit_def
        test_whole_Times_Cls cls_mem_digit list_all_iff)

lemma malformed_rfc_iff: "malformed_rfc s \<longleftrightarrow> truthy s \<and> \<not> validateRFC s"
  by (auto simp: malformed_rfc_def validateRFC_def truthy_def
        test_whole_Times_Cls cls_mem_alnum list_all_iff)

lemma malformed_postalCode_iff: "malformed_postalCode s \<longleftrightarrow> truthy s \<and> \<not> validatePostalCode s"
  by (auto simp: malformed_postalCode_def validatePostalCode_def truthy_def Digit_def
        test_whole_Times_Cls cls_mem_digit list_all_iff)

section \<open>The filter validator\<close>

text \<open>
  Claim C3. A filter set with fewer than two filled groups, the four address fields
  counting as one group at most, is rejected with the general error and an empty list
  of field errors, whatever the format of its fields.
\<close>

theorem minimum_filter_gate:
  assumes "countFilledFilters f < 2"
  shows "validateSearchFilters f =
           \<lparr>isValid = False, errors = [], generalError = Some msg_minimum_filters\<rparr>"
  using assms by (simp add: validateSearchFilters_def Let_def)

text \<open>
  The four address fields are all filled, the postal code badly: one group, so the
  general error and no field error.
\<close>

theorem minimum_filter_gate_witness:
  "validateSearchFilters
     (no_filters\<lparr>stateId := ''s1'', municipalityId := ''m1'', neighborhoodId := ''n1'',
                 postalCode := ''64x''\<rparr>) =
     \<lparr>isValid = False, errors = [], generalError = Some msg_minimum_filters\<rparr>"
proof -
  have "countFilledFilters
          (no_filters\<lparr>stateId := ''s1'', municipalityId := ''m1'', neighborhoodId := ''n1'',
                      postalCode := ''64x''\<rparr>) < 2"
    by code_simp
  then show ?thesis by (rule minimum_filter_gate)
qed

text \<open>
  Claim C4. With two filled groups or more, the validator returns one field error for
  each malformed field among primaryPhone, secondaryPhone, rfc and postalCode, in this
  order and all together, no general error, and it accepts the filters only when no
  field is malformed.
\<close>

theorem format_errors_accumulate:
  assumes "2 \<le> countFilledFilters f"
  shows "map field (errors (validateSearchFilters f)) = malformed_fields f
         \<and> generalError (validateSearchFilters f) = None
         \<and> isValid (validateSearchFilters f) = (malformed_fields f = [])"
  using assms
  by (simp add: validateSearchFilters_def Let_def push_if_def malformed_fields_def
        malformed_phone_iff malformed_rfc_iff malformed_postalCode_iff)

text \<open>A bad phone, a bad RFC and a bad postal code give three field errors.\<close>

theorem format_errors_accumulate_witness:
  "map field (errors (validateSearchFilters
      (no_filters\<lparr>primaryPhone := ''555'', rfc := ''ABC-1'', postalCode := ''64x''\<rparr>)))
     = [''primaryPhone'', ''rfc'', ''postalCode'']
   \<and> generalError (validateSearchFilters
      (no_filters\<lparr>primaryPhone := ''555'', rfc := ''ABC-1'', postalCode := ''64x''\<rparr>)) = None
   \<and> \<not> isValid (validateSearchFilters
      (no_filters\<lparr>primaryPhone := ''555'', rfc := ''ABC-1'', postalCode := ''64x''\<rparr>))"
proof -
  let ?f = "no_filters\<lparr>primaryPhone := ''555'', rfc := ''ABC-1'', postalCode := ''64x''\<rparr>"
  have h: "2 \<le> countFilledFilters ?f" by code_simp
  have m: "malformed_fields ?f = [''primaryPhone'', ''rfc'', ''postalCode'']" by code_simp
  from format_errors_accumulate[OF h] m show ?thesis by simp
qed

section \<open>Card security utilities\<close>









text \<open>
  Claim C6. The claim gives MasterCard the prefixes 2221 to 2720 and Discover the
  prefixes 622126 to 622925 (with 6011, 644 to 649 and 65). The code answers Unknown for
  622130, inside the Discover range, and MasterCard for 2220, outside the MasterCard
  range.
\<close>

theorem getCardBrand_range_slips:
  "getCardBrand ''6221300000000000'' = ''Unknown''
   \<and> getCardBrand ''2220000000000000'' = ''MasterCard''"
  by code_simp

text \<open>
  Claim C7. \<open>validateCardForTransaction\<close> checks the length, then the expiration, then
  the status, and reports the first check that fails; the card is valid exactly when
  the three checks pass.
\<close>

theorem validateCardForTransaction_order:
  "(\<not> isValidCardLength (tx_cardNumber c) \<longrightarrow>
      validateCardForTransaction now c = \<lparr>tx_isValid = False, tx_error = Some msg_invalid_number\<rparr>)
   \<and> (isValidCardLength (tx_cardNumber c) \<and> isCardExpired now (tx_expirationDate c) \<longrightarrow>
      validateCardForTransaction now c = \<lparr>tx_isValid = False, tx_error = Some msg_expired\<rparr>)
   \<and> (isValidCardLength (tx_cardNumber c) \<and> \<not> isCardExpired now (tx_expirationDate c)
        \<and> \<not> isCardUsable (tx_status c) \<longrightarrow>
      validateCardForTransaction now c =
        \<lparr>tx_isValid = False, tx_error = Some (msg_not_active (tx_status c))\<rparr>)
   \<and> (tx_isValid (validateCardForTransaction now c) \<longleftrightarrow>
        isValidCardLength (tx_cardNumber c) \<and> \<not> isCardExpired now (tx_expirationDate c)
        \<and> isCardUsable (tx_status c))"
  by (simp add: validateCardForTransaction_def)

text \<open>
  A card that is too short, expired and blocked reports the length; with a good length
  the expiration; with a good date the status; an active card passes.
\<close>

theorem validateCardForTransaction_order_witness:
  "validateCardForTransaction november_2026
     \<lparr>tx_cardNumber = ''12345'', tx_expirationDate = ''01/20'', tx_status = ''blocked''\<rparr>
     = \<lparr>tx_isValid = False, tx_error = Some msg_invalid_number\<rparr>
   \<and> validateCardForTransaction november_2026
     \<lparr>tx_cardNumber = ''4532123456789012'', tx_expirationDate = ''01/20'', tx_status = ''blocked''\<rparr>
     = \<lparr>tx_isValid = False, tx_error = Some msg_expired\<rparr>
   \<and> validateCardForTransaction november_2026
     \<lparr>tx_cardNumber = ''4532123456789012'', tx_expirationDate = ''12/30'', tx_status = ''blocked''\<rparr>
     = \<lparr>tx_isValid = False, tx_error = Some (msg_not_active ''blocked'')\<rparr>
   \<and> tx_isValid (validateCardForTransaction november_2026
     \<lparr>tx_cardNumber = ''4532123456789012'', tx_expirationDate = ''12/30'', tx_status = ''ACTIVE''\<rparr>)"
proof -
  have l: "\<not> isValidCardLength ''12345''" "isValidCardLength ''4532123456789012''"
    by code_simp+
  have e: "isCardExpired november_2026 ''01/20''" "\<not> isCardExpired november_2026 ''12/30''"
    by code_simp+
  have u: "\<not> isCardUsable ''blocked''" "isCardUsable ''ACTIVE''"
    by code_simp+
  from validateCardForTransaction_order[of
         "\<lparr>tx_cardNumber = ''12345'', tx_expirationDate = ''01/20'', tx_status = ''blocked''\<rparr>" november_2026]
       validateCardForTransaction_order[of
         "\<lparr>tx_cardNumber = ''4532123456789012'', tx_expirationDate = ''01/20'', tx_status = ''blocked''\<rparr>" november_2026]
       validateCardForTransaction_order[of
         "\<lparr>tx_cardNumber = ''4532123456789012'', tx_expirationDate = ''12/30'', tx_status = ''blocked''\<rparr>" november_2026]
       validateCardForTransaction_order[of
         "\<lparr>tx_cardNumber = ''4532123456789012'', tx_expirationDate = ''12/30'', tx_status = ''ACTIVE''\<rparr>" november_2026]
       l e u
  show ?thesis by simp
qed

section \<open>Card registry actions\<close>

text \<open>
  Claim C8. The name is the first, middle and last name joined by single spaces and
  trimmed at both ends, with no extra white space when the middle name is missing. For
  John Doe, who has no middle name, the code leaves two spaces between the names.
\<close>

theorem cardholderName_missing_middle_name:
  "map cardholderName (returned (getCustomerCards demo_db ''c1'')) = [''John  Doe'']"
  by code_simp

text \<open>A blank identifier, one of white space only, is the one that \<open>trim\<close> empties.\<close>

lemma trim_Nil_iff: "trim s = [] \<longleftrightarrow> (\<forall>c \<in> set s. is_space c)"
proof (cases "dropWhile is_space s")
  case Nil
  then have "\<forall>c \<in> set s. is_space c" by (simp add: dropWhile_eq_Nil_conv)
  then show ?thesis unfolding trim_def Nil by simp
next
  case (Cons x xs)
  then have "\<not> is_space x" using hd_dropWhile[of is_space s] by simp
  moreover have "x \<in> set s" using Cons set_dropWhileD[of x is_space s] by simp
  ultimately show ?thesis using Cons
    by (auto simp: trim_def dropWhile_eq_Nil_conv)
qed

















section \<open>Search orchestrator\<close>















text \<open>
  Claim C10. Emptying the dateOfBirth and clientNumber filters changes nothing in the
  outcome of \<open>searchCustomers\<close>, whatever the registry, although each of the two counts
  as a filled group in \<open>countFilledFilters\<close>.
\<close>

theorem unused_filters_do_not_constrain:
  "searchCustomers d (f\<lparr>dateOfBirth := [], clientNumber := []\<rparr>) = searchCustomers d f
   \<and> countFilledFilters f =
       countFilledFilters (f\<lparr>dateOfBirth := [], clientNumber := []\<rparr>)
       + (if truthy (dateOfBirth f) then 1 else 0) + (if truthy (clientNumber f) then 1 else 0)"
proof
  let ?g = "f\<lparr>dateOfBirth := [], clientNumber := []\<rparr>"
  have "base_query d ?g = base_query d f"
    by (simp add: base_query_def name_conditions_def)
  moreover have "phone_pass d ?g = phone_pass d f"
    by (rule ext) (simp add: phone_pass_def)
  moreover have "government_id_pass d ?g = government_id_pass d f"
    by (rule ext) (simp add: government_id_pass_def)
  moreover have "address_pass d ?g = address_pass d f"
    by (rule ext) (simp add: address_pass_def)
  ultimately have "searchCustomers_try d ?g = searchCustomers_try d f"
    by (simp add: searchCustomers_try_def)
  then show "searchCustomers d ?g = searchCustomers d f"
    by (simp add: searchCustomers_def)
next
  show "countFilledFilters f =
       countFilledFilters (f\<lparr>dateOfBirth := [], clientNumber := []\<rparr>)
       + (if truthy (dateOfBirth f) then 1 else 0) + (if truthy (clientNumber f) then 1 else 0)"
    by (simp add: countFilledFilters_def truthy_def)
qed


text \<open>A date of birth and a client number alone: two filled groups, and the search of no filter.\<close>

theorem unused_filters_do_not_constrain_witness:
  "searchCustomers demo_db no_filters =
     searchCustomers demo_db (no_filters\<lparr>dateOfBirth := ''1990-01-01'', clientNumber := ''0001''\<rparr>)
   \<and> countFilledFilters (no_filters\<lparr>dateOfBirth := ''1990-01-01'', clientNumber := ''0001''\<rparr>) = 2"
proof -
  let ?f = "no_filters\<lparr>dateOfBirth := ''1990-01-01'', clientNumber := ''0001''\<rparr>"
  have e: "?f\<lparr>dateOfBirth := [], clientNumber := []\<rparr> = no_filters"
    by (simp add: no_filters_def)
  have c: "countFilledFilters no_filters = 0" "truthy (dateOfBirth ?f)" "truthy (clientNumber ?f)"
    by (simp_all add: no_filters_def countFilledFilters_def truthy_def)
  from unused_filters_do_not_constrain[of demo_db ?f] e c
  show ?thesis by simp
qed

end
